theory Spec2Isabelle
  imports Main "HOL-Library.Sublist"
begin

section \<open>asi-utils: the command execution and formatting core\<close>

text \<open>
  A shallow embedding of \<^verbatim>\<open>infi/asi_utils/__init__.py\<close>. Python 2 byte strings are
  \<^typ>\<open>string\<close>, Python integers are \<^typ>\<open>int\<close>, \<^verbatim>\<open>None\<close> is \<^term>\<open>None\<close>, a raised
  exception is the left injection of a sum, and everything the module does to the outside
  (standard streams, files, the device channel, reset actions) is recorded in an explicit
  \<open>world\<close> that every function takes and returns.
\<close>

subsection \<open>Exceptions\<close>

type_synonym sense = string
  \<comment> \<open>the sense object carried by a check-condition error; opaque to this module\<close>

datatype error =
    ValueError string
  | NotImplementedError string
  | AssertionError
  | AsiCheckConditionError sense
  | AsiOSError string
  | AsiSCSIError string
  | IOError string
  | TypeError string
  | SystemExit int

text \<open>\<^verbatim>\<open>str(error)\<close>, as \<^verbatim>\<open>print(error, file=sys.stderr)\<close> renders it.\<close>

fun str_of_error :: "error \<Rightarrow> string" where
  "str_of_error (ValueError m) = m"
| "str_of_error (NotImplementedError m) = m"
| "str_of_error AssertionError = []"
| "str_of_error (AsiCheckConditionError s) = s"
| "str_of_error (AsiOSError m) = m"
| "str_of_error (AsiSCSIError m) = m"
| "str_of_error (IOError m) = m"
| "str_of_error (TypeError m) = m"
| "str_of_error (SystemExit n) = []"

subsection \<open>The Python built-ins the module relies on\<close>

definition isspace :: "char \<Rightarrow> bool" where
  "isspace c \<longleftrightarrow> (let n = (of_char c :: nat) in n = 32 \<or> (9 \<le> n \<and> n \<le> 13))"

text \<open>The value of a character as a digit in a base up to 16, if it is one.\<close>

definition digit_value :: "char \<Rightarrow> nat option" where
  "digit_value c =
     (let n = (of_char c :: nat) in
      if 48 \<le> n \<and> n \<le> 57 then Some (n - 48)
      else if 97 \<le> n \<and> n \<le> 102 then Some (n - 87)
      else if 65 \<le> n \<and> n \<le> 70 then Some (n - 55)
      else None)"

definition is_digit_in :: "nat \<Rightarrow> char \<Rightarrow> bool" where
  "is_digit_in base c = (case digit_value c of None \<Rightarrow> False | Some d \<Rightarrow> d < base)"

text \<open>\<^verbatim>\<open>s.isdigit()\<close>: at least one character, and every character a decimal digit.\<close>

definition isdigit :: "string \<Rightarrow> bool" where
  "isdigit s \<longleftrightarrow> s \<noteq> [] \<and> list_all (is_digit_in 10) s"

text \<open>\<^verbatim>\<open>s.startswith(p)\<close>.\<close>

definition startswith :: "string \<Rightarrow> string \<Rightarrow> bool" where
  "startswith s p \<longleftrightarrow> take (length p) s = p"

text \<open>The number a run of digits denotes, most significant digit first.\<close>

definition digits_value :: "nat \<Rightarrow> string \<Rightarrow> int" where
  "digits_value base ds = foldl (\<lambda>acc c. acc * int base + int (the (digit_value c))) 0 ds"

text \<open>
  \<^verbatim>\<open>repr(s)\<close> of a string without quotes, backslashes or unprintable characters (the
  escapes of the others are not written out: only the text of an error message depends on it).
\<close>

definition repr :: "string \<Rightarrow> string" where
  "repr s = [CHR 0x27] @ s @ [CHR 0x27]"

text \<open>
  \<^verbatim>\<open>int(s, base)\<close> for base 10 and 16: surrounding whitespace is skipped, one sign is
  accepted, base 16 accepts a \<^verbatim>\<open>0x\<close> or \<^verbatim>\<open>0X\<close> prefix when a hexadecimal digit follows
  it, and then at least one digit and nothing but digits must follow. Anything else raises
  \<^verbatim>\<open>ValueError\<close>.
\<close>

definition invalid_literal :: "nat \<Rightarrow> string \<Rightarrow> error" where
  "invalid_literal base s =
     ValueError (''invalid literal for int() with base '' @
                 (if base = 16 then ''16'' else ''10'') @ '': '' @ repr s)"

definition strip_prefix16 :: "nat \<Rightarrow> string \<Rightarrow> string" where
  "strip_prefix16 base s =
     (case s of
        z # x # d # rest \<Rightarrow>
          if base = 16 \<and> z = CHR ''0'' \<and> (x = CHR ''x'' \<or> x = CHR ''X'') \<and> is_digit_in 16 d
          then d # rest else s
      | _ \<Rightarrow> s)"

definition py_int :: "string \<Rightarrow> nat \<Rightarrow> error + int" where
  "py_int s base =
     (let s1 = dropWhile isspace s;
          negative = (case s1 of c # _ \<Rightarrow> c = CHR ''-'' | [] \<Rightarrow> False);
          s2 = (case s1 of c # r \<Rightarrow> if c = CHR ''-'' \<or> c = CHR ''+'' then r else s1 | [] \<Rightarrow> s1);
          s3 = strip_prefix16 base s2;
          ds = takeWhile (is_digit_in base) s3;
          rest = dropWhile (is_digit_in base) s3
      in if ds = [] \<or> \<not> list_all isspace rest then Inl (invalid_literal base s)
         else Inr (if negative then - digits_value base ds else digits_value base ds))"

text \<open>\<^verbatim>\<open>sep.join(xs)\<close>.\<close>

fun join :: "string \<Rightarrow> string list \<Rightarrow> string" where
  "join sep [] = []"
| "join sep [x] = x"
| "join sep (x # y # ys) = x @ sep @ join sep (y # ys)"

subsection \<open>The protocol objects of the channel library\<close>

text \<open>
  \<^verbatim>\<open>SCSIReadCommand(datagram, length)\<close> and \<^verbatim>\<open>SCSIWriteCommand(datagram, data)\<close> of
  \<^verbatim>\<open>infi.asi\<close>: the two sub-operations a command can hand to an executer.
\<close>

datatype scsi_command =
    SCSIReadCommand string int
  | SCSIWriteCommand string string

text \<open>
  An executer answers a sub-operation with a result datagram or raises. The coroutine
  \<^verbatim>\<open>executer.call(...)\<close> driven to completion by \<^verbatim>\<open>infi.asi\<close>'s synchronous adapter is this
  function.
\<close>

type_synonym executer = "scsi_command \<Rightarrow> error + string"

subsection \<open>Commands\<close>

text \<open>
  The object \<^verbatim>\<open>build_raw_command\<close> returns: an instance of its local class \<^verbatim>\<open>CDB\<close>,
  which closes over the variables of the call. The record holds the values those variables
  have when the function returns.
\<close>

record CDB =
  cdb_raw :: string
  request_length :: int
  send_length :: int
  data :: string

text \<open>
  The commands the entry point builds: the raw command, and the command classes of
  \<^verbatim>\<open>infi.asi.cdb\<close> with the arguments their constructors are given.
\<close>

datatype command =
    TestUnitReadyCommand
  | StandardInquiryCommand int
  | VpdPageCommand int
  | ReportLunsCommand int
  | RTPGCommand int
  | ReadCapacity10Command
  | ReadCapacity16Command
  | LogSenseCommand int
  | RawCommand CDB

subsection \<open>Formatters and the output context\<close>

text \<open>
  The formatter classes come from the package's \<^verbatim>\<open>formatters\<close> module. Only their
  identity matters here; what \<^verbatim>\<open>format\<close> returns for each of them is a parameter of the
  model (the field \<open>format\<close> of the environment below).
\<close>

datatype formatter =
    DefaultOutputFormatter
  | ErrorOutputFormatter
  | ReadcapOutputFormatter
  | LunsOutputFormatter
  | RtpgOutputFormatter
  | HexOutputFormatter
  | RawOutputFormatter
  | JsonOutputFormatter

text \<open>The values that are handed to a formatter.\<close>

datatype printable =
    PCommand command
  | PResult string
  | PSense sense

datatype stream = Stdout | Stderr

record OutputContext =
  verbose :: bool
  command_formatter :: formatter
  result_formatter :: formatter

text \<open>\<^verbatim>\<open>OutputContext.__init__\<close>.\<close>

definition OutputContext_init :: OutputContext where
  "OutputContext_init =
     \<lparr>verbose = False,
      command_formatter = DefaultOutputFormatter,
      result_formatter = DefaultOutputFormatter\<rparr>"

definition enable_verbose :: "OutputContext \<Rightarrow> OutputContext" where
  "enable_verbose self = self\<lparr>verbose := True\<rparr>"

definition set_command_formatter :: "OutputContext \<Rightarrow> formatter \<Rightarrow> OutputContext" where
  "set_command_formatter self formatter = self\<lparr>command_formatter := formatter\<rparr>"

definition set_result_formatter :: "OutputContext \<Rightarrow> formatter \<Rightarrow> OutputContext" where
  "set_result_formatter self formatter = self\<lparr>result_formatter := formatter\<rparr>"

text \<open>The method \<^verbatim>\<open>OutputContext.set_formatters\<close> (the module has a function of that name too).\<close>

definition OutputContext_set_formatters :: "OutputContext \<Rightarrow> formatter \<Rightarrow> OutputContext" where
  "OutputContext_set_formatters self formatter =
     set_result_formatter (set_command_formatter self formatter) formatter"

subsection \<open>The world and the environment\<close>

text \<open>The executer modules of the package, one per transport.\<close>

datatype executers =
    executers_windows
  | executers_linux_sg
  | executers_linux_dm
  | executers_solaris
  | executers_aix

datatype reset_kind = target_reset | host_reset | lun_reset

text \<open>What the program does to devices, in order.\<close>

datatype event =
    Opened executers string
  | Closed executers string
  | Called scsi_command
  | Reset reset_kind string

text \<open>
  The mutable state: the module's global \<^verbatim>\<open>ActiveOutputContext\<close>, the text written to the
  two output streams so far, the unread rest of standard input, the contents of the files,
  and the trace of device events.
\<close>

record world =
  ActiveOutputContext :: OutputContext
  stdout :: string
  stderr :: string
  stdin :: string
  files :: "string \<rightharpoonup> string"
  events :: "event list"

text \<open>
  The collaborators outside the module, as parameters:
  \<^item> \<open>platform\<close>: what \<^verbatim>\<open>infi.os_info.get_platform_string()\<close> returns;
  \<^item> \<open>get_sg_from_sd\<close>: \<^verbatim>\<open>infi.sgutils.sg_map.get_sg_from_sd\<close>;
  \<^item> \<open>open_executer\<close>: entering \<^verbatim>\<open>executers.<name>(device)\<close>, which yields an executer or raises;
  \<^item> \<open>library_execute\<close>: \<^verbatim>\<open>execute\<close> of a command class of \<^verbatim>\<open>infi.asi.cdb\<close> driven to its
    end: the sub-operations it hands to the executer and its result;
  \<^item> \<open>restore\<close>: \<^verbatim>\<open>hexdump.restore\<close>;
  \<^item> \<open>format\<close>: \<^verbatim>\<open>format\<close> of each formatter class;
  \<^item> \<open>get_vpd_page\<close>: the command \<^verbatim>\<open>vpd_pages.get_vpd_page(n)()\<close> constructs, \<^term>\<open>None\<close>
    when \<^verbatim>\<open>get_vpd_page(n)\<close> is \<^verbatim>\<open>None\<close>;
  \<^item> \<open>sg_reset\<close>: the three functions of \<^verbatim>\<open>infi.sgutils.sg_reset\<close>;
  \<^item> \<open>writable\<close>: whether \<^verbatim>\<open>open(name, 'w')\<close> succeeds.
\<close>

record env =
  platform :: string
  get_sg_from_sd :: "string \<Rightarrow> error + string"
  open_executer :: "executers \<Rightarrow> string \<Rightarrow> error + executer"
  library_execute :: "command \<Rightarrow> executer \<Rightarrow> scsi_command list \<times> (error + string)"
  restore :: "string \<Rightarrow> error + string"
  format :: "formatter \<Rightarrow> printable \<Rightarrow> string"
  get_vpd_page :: "int \<Rightarrow> command option"
  sg_reset :: "reset_kind \<Rightarrow> string \<Rightarrow> error + unit"
  writable :: "string \<Rightarrow> bool"

text \<open>\<^verbatim>\<open>OutputContext._print\<close>: \<^verbatim>\<open>print(string, file=file)\<close> writes the string and a newline.\<close>

definition print_to :: "string \<Rightarrow> stream \<Rightarrow> world \<Rightarrow> world" where
  "print_to string file w =
     (case file of
        Stdout \<Rightarrow> w\<lparr>stdout := stdout w @ string @ [CHR 0x0A]\<rparr>
      | Stderr \<Rightarrow> w\<lparr>stderr := stderr w @ string @ [CHR 0x0A]\<rparr>)"

definition output_command :: "env \<Rightarrow> OutputContext \<Rightarrow> printable \<Rightarrow> stream \<Rightarrow> world \<Rightarrow> world" where
  "output_command E self command file w =
     (if \<not> verbose self then w
      else print_to (format E (command_formatter self) command) file w)"

definition output_result :: "env \<Rightarrow> OutputContext \<Rightarrow> printable \<Rightarrow> stream \<Rightarrow> world \<Rightarrow> world" where
  "output_result E self result file w =
     print_to (format E (result_formatter self) result) file w"

definition output_error :: "env \<Rightarrow> OutputContext \<Rightarrow> printable \<Rightarrow> stream \<Rightarrow> world \<Rightarrow> world" where
  "output_error E self result file w =
     print_to (format E ErrorOutputFormatter result) file w"

subsection \<open>The raw command builder\<close>

text \<open>The \<^verbatim>\<open><cdb>\<close> argument: a list of tokens or one string.\<close>

datatype cdb_arg = Tokens "string list" | Text string

text \<open>
  The chain that turns a length or page option into a number, written out in the source
  once for each of the request length, the send length and the log page, with \<open>what\<close> the
  noun of its error message.
\<close>

definition resolve_length :: "string \<Rightarrow> string option \<Rightarrow> error + int" where
  "resolve_length what l =
     (case l of
        None \<Rightarrow> Inr 0
      | Some s \<Rightarrow>
          if isdigit s then py_int s 10
          else if startswith s ''0x'' then py_int s 16
          else Inl (ValueError (''invalid '' @ what @ '': '' @ s)))"

text \<open>\<^verbatim>\<open>fd.read(n)\<close> on a stream holding \<open>content\<close>: up to \<open>n\<close> bytes, all of it when \<open>n < 0\<close>.\<close>

definition read_bytes :: "int \<Rightarrow> string \<Rightarrow> string" where
  "read_bytes n content = (if n < 0 then content else take (nat n) content)"

text \<open>
  The input of a write command: \<^verbatim>\<open>sys.stdin.read(send_length)\<close> for the file name
  \<^verbatim>\<open><stdin>\<close>, else \<^verbatim>\<open>open(input_file)\<close> and \<^verbatim>\<open>fd.read(send_length)\<close>.
\<close>

definition read_input :: "string \<Rightarrow> int \<Rightarrow> world \<Rightarrow> (error + string) \<times> world" where
  "read_input input_file n w =
     (if input_file = ''<stdin>''
      then (Inr (read_bytes n (stdin w)),
            w\<lparr>stdin := drop (length (read_bytes n (stdin w))) (stdin w)\<rparr>)
      else (case files w input_file of
              None \<Rightarrow> (Inl (IOError (''[Errno 2] No such file or directory: '' @ repr input_file)), w)
            | Some content \<Rightarrow> (Inr (read_bytes n content), w)))"

definition build_raw_command ::
  "env \<Rightarrow> cdb_arg \<Rightarrow> string option \<Rightarrow> string option \<Rightarrow> string option \<Rightarrow> string \<Rightarrow> world
     \<Rightarrow> (error + CDB) \<times> world" where
  "build_raw_command E cdb request_length_arg output_file send_length_arg input_file w =
     (case restore E (case cdb of Tokens ts \<Rightarrow> join '' '' ts | Text t \<Rightarrow> t) of
        Inl e \<Rightarrow> (Inl e, w)
      | Inr raw \<Rightarrow>
     (case resolve_length ''request length'' request_length_arg of
        Inl e \<Rightarrow> (Inl e, w)
      | Inr rl \<Rightarrow>
     (case resolve_length ''send length'' send_length_arg of
        Inl e \<Rightarrow> (Inl e, w)
      | Inr sl \<Rightarrow>
     (case (if sl \<noteq> 0 then read_input input_file sl w else (Inr [], w)) of
        (Inl e, w') \<Rightarrow> (Inl e, w')
      | (Inr d, w') \<Rightarrow>
          if int (length d) = sl
          then (Inr \<lparr>cdb_raw = raw, request_length = rl, send_length = sl, data = d\<rparr>, w')
          else (Inl AssertionError, w')))))"

text \<open>The methods of the class \<^verbatim>\<open>CDB\<close>.\<close>

definition create_datagram :: "CDB \<Rightarrow> string" where
  "create_datagram self = cdb_raw self"

text \<open>
  \<^verbatim>\<open>CDB.execute\<close>, a generator driven to its end: the sub-operations it hands to the
  executer, and the result datagram it yields last (or the exception of the call).
\<close>

definition execute :: "CDB \<Rightarrow> executer \<Rightarrow> scsi_command list \<times> (error + string)" where
  "execute self executer =
     (let datagram = create_datagram self in
      if send_length self \<noteq> 0
      then ([SCSIWriteCommand datagram (data self)],
            executer (SCSIWriteCommand datagram (data self)))
      else ([SCSIReadCommand datagram (request_length self)],
            executer (SCSIReadCommand datagram (request_length self))))"

text \<open>\<^verbatim>\<open>command.execute(asi)\<close> for any command.\<close>

definition command_execute :: "env \<Rightarrow> command \<Rightarrow> executer \<Rightarrow> scsi_command list \<times> (error + string)" where
  "command_execute E command asi =
     (case command of
        RawCommand c \<Rightarrow> execute c asi
      | _ \<Rightarrow> library_execute E command asi)"

subsection \<open>The channel resolver and the synchronous bridge\<close>

text \<open>The choice of the executer in \<^verbatim>\<open>asi_context\<close>, before anything is opened.\<close>

definition select_executer :: "env \<Rightarrow> string \<Rightarrow> error + executers \<times> string" where
  "select_executer E device =
     (if startswith (platform E) ''windows'' then Inr (executers_windows, device)
      else if startswith (platform E) ''linux'' then
        (case (if startswith device ''/dev/sd'' then get_sg_from_sd E device else Inr device) of
           Inl e \<Rightarrow> Inl e
         | Inr device' \<Rightarrow>
             Inr (if startswith device' ''/dev/sg'' then executers_linux_sg
                  else executers_linux_dm, device'))
      else if startswith (platform E) ''solaris'' then Inr (executers_solaris, device)
      else if startswith (platform E) ''aix'' then Inr (executers_aix, device)
      else Inl (NotImplementedError ''this platform is not supported''))"

definition log_event :: "event \<Rightarrow> world \<Rightarrow> world" where
  "log_event ev w = w\<lparr>events := events w @ [ev]\<rparr>"

text \<open>
  \<^verbatim>\<open>with asi_context(device) as asi: body\<close>. The executer is closed when the block is
  left, also by an exception.
\<close>

definition asi_context ::
  "env \<Rightarrow> string \<Rightarrow> (executer \<Rightarrow> world \<Rightarrow> (error + 'a) \<times> world) \<Rightarrow> world \<Rightarrow> (error + 'a) \<times> world" where
  "asi_context E device body w =
     (case select_executer E device of
        Inl e \<Rightarrow> (Inl e, w)
      | Inr (func, device') \<Rightarrow>
          (case open_executer E func device' of
             Inl e \<Rightarrow> (Inl e, w)
           | Inr asi \<Rightarrow>
               (case body asi (log_event (Opened func device') w) of
                  (r, w') \<Rightarrow> (r, log_event (Closed func device') w'))))"

definition sync_wait :: "env \<Rightarrow> executer \<Rightarrow> command \<Rightarrow> bool \<Rightarrow> world \<Rightarrow> (error + string) \<times> world" where
  "sync_wait E asi command supresss_output w =
     (let w1 = output_command E (ActiveOutputContext w) (PCommand command) Stdout w in
      case command_execute E command asi of
        (calls, r) \<Rightarrow>
          (let w2 = w1\<lparr>events := events w1 @ map Called calls\<rparr> in
           case r of
             Inl e \<Rightarrow> (Inl e, w2)
           | Inr result \<Rightarrow>
               (Inr result,
                if \<not> supresss_output
                then output_result E (ActiveOutputContext w2) (PResult result) Stdout w2
                else w2)))"

text \<open>A call of \<^verbatim>\<open>sync_wait\<close> whose result is not used.\<close>

definition sync_wait_stmt :: "env \<Rightarrow> executer \<Rightarrow> command \<Rightarrow> world \<Rightarrow> (error + unit) \<times> world" where
  "sync_wait_stmt E asi command w =
     (case sync_wait E asi command False w of
        (Inl e, w') \<Rightarrow> (Inl e, w')
      | (Inr _, w') \<Rightarrow> (Inr (), w'))"

subsection \<open>The command families\<close>

text \<open>\<^verbatim>\<open>for i in xrange(n): sync_wait(asi, TestUnitReadyCommand())\<close>.\<close>

fun turs_loop :: "env \<Rightarrow> executer \<Rightarrow> nat \<Rightarrow> world \<Rightarrow> (error + unit) \<times> world" where
  "turs_loop E asi 0 w = (Inr (), w)"
| "turs_loop E asi (Suc n) w =
     (case sync_wait_stmt E asi TestUnitReadyCommand w of
        (Inl e, w') \<Rightarrow> (Inl e, w')
      | (Inr _, w') \<Rightarrow> turs_loop E asi n w')"

text \<open>
  \<^verbatim>\<open>int(number)\<close> is evaluated inside the \<^verbatim>\<open>with\<close> block, once the executer is open; a
  negative number gives an empty \<^verbatim>\<open>xrange\<close>.
\<close>

definition turs :: "env \<Rightarrow> string \<Rightarrow> string \<Rightarrow> world \<Rightarrow> (error + unit) \<times> world" where
  "turs E device number w =
     asi_context E device
       (\<lambda>asi w'. case py_int number 10 of
                    Inl e \<Rightarrow> (Inl e, w')
                  | Inr n \<Rightarrow> turs_loop E asi (nat n) w') w"

text \<open>
  In \<^verbatim>\<open>inq\<close>, \<^verbatim>\<open>get_vpd_page(n)()\<close> calls what \<^verbatim>\<open>get_vpd_page\<close> returns, so a page without
  a class raises \<^verbatim>\<open>TypeError\<close> there, and the later test \<^verbatim>\<open>command is None\<close> never holds.
\<close>

definition call_vpd_page :: "env \<Rightarrow> int \<Rightarrow> error + command" where
  "call_vpd_page E n =
     (case get_vpd_page E n of
        None \<Rightarrow> Inl (TypeError (''NoneType object is not callable''))
      | Some c \<Rightarrow> Inr c)"

definition inq :: "env \<Rightarrow> string \<Rightarrow> string option \<Rightarrow> world \<Rightarrow> (error + unit) \<times> world" where
  "inq E device page w =
     (case (case page of
              None \<Rightarrow> Inr (StandardInquiryCommand 219)
            | Some p \<Rightarrow>
                if isdigit p then
                  (case py_int p 10 of Inl e \<Rightarrow> Inl e | Inr n \<Rightarrow> call_vpd_page E n)
                else if startswith p ''0x'' then
                  (case py_int p 16 of Inl e \<Rightarrow> Inl e | Inr n \<Rightarrow> call_vpd_page E n)
                else Inl (ValueError (''invalid vpd page: '' @ p))) of
        Inl e \<Rightarrow> (Inl e, w)
      | Inr command \<Rightarrow> asi_context E device (\<lambda>asi. sync_wait_stmt E asi command) w)"

definition luns :: "env \<Rightarrow> string \<Rightarrow> string \<Rightarrow> world \<Rightarrow> (error + unit) \<times> world" where
  "luns E device select_report w =
     (case py_int select_report 10 of
        Inl e \<Rightarrow> (Inl e, w)
      | Inr n \<Rightarrow> asi_context E device (\<lambda>asi. sync_wait_stmt E asi (ReportLunsCommand n)) w)"

definition rtpg :: "env \<Rightarrow> string \<Rightarrow> bool \<Rightarrow> world \<Rightarrow> (error + unit) \<times> world" where
  "rtpg E device extended w =
     (let data_format = (if extended then 1 else 0) in
      asi_context E device (\<lambda>asi. sync_wait_stmt E asi (RTPGCommand data_format)) w)"

definition readcap :: "env \<Rightarrow> string \<Rightarrow> bool \<Rightarrow> world \<Rightarrow> (error + unit) \<times> world" where
  "readcap E device read_16 w =
     (let command = (if read_16 then ReadCapacity16Command else ReadCapacity10Command) in
      asi_context E device (\<lambda>asi. sync_wait_stmt E asi command) w)"

text \<open>\<^verbatim>\<open>with open(output_file, 'w') as fd: fd.write(result)\<close>.\<close>

definition write_file :: "env \<Rightarrow> string \<Rightarrow> string \<Rightarrow> world \<Rightarrow> (error + unit) \<times> world" where
  "write_file E name content w =
     (if writable E name then (Inr (), w\<lparr>files := (files w)(name \<mapsto> content)\<rparr>)
      else (Inl (IOError (''[Errno 13] Permission denied: '' @ repr name)), w))"

text \<open>The truth value of the \<^verbatim>\<open>--outfile\<close> option: set and not the empty string.\<close>

definition truthy :: "string option \<Rightarrow> bool" where
  "truthy s \<longleftrightarrow> (case s of None \<Rightarrow> False | Some t \<Rightarrow> t \<noteq> [])"

definition raw ::
  "env \<Rightarrow> string \<Rightarrow> cdb_arg \<Rightarrow> string option \<Rightarrow> string option \<Rightarrow> string option \<Rightarrow> string \<Rightarrow> world
     \<Rightarrow> (error + unit) \<times> world" where
  "raw E device cdb request_length_arg output_file send_length_arg input_file w =
     (case build_raw_command E cdb request_length_arg output_file send_length_arg input_file w of
        (Inl e, w1) \<Rightarrow> (Inl e, w1)
      | (Inr command, w1) \<Rightarrow>
          asi_context E device
            (\<lambda>asi w2. case sync_wait E asi (RawCommand command) True w2 of
                         (Inl e, w3) \<Rightarrow> (Inl e, w3)
                       | (Inr result, w3) \<Rightarrow>
                           if truthy output_file then write_file E (the output_file) result w3
                           else (Inr (), w3)) w1)"

definition logs :: "env \<Rightarrow> string \<Rightarrow> string option \<Rightarrow> world \<Rightarrow> (error + unit) \<times> world" where
  "logs E device page w =
     (case resolve_length ''vpd page'' page of
        Inl e \<Rightarrow> (Inl e, w)
      | Inr n \<Rightarrow> asi_context E device (\<lambda>asi. sync_wait_stmt E asi (LogSenseCommand n)) w)"

text \<open>One call into \<^verbatim>\<open>sg_reset\<close>.\<close>

definition do_reset :: "env \<Rightarrow> reset_kind \<Rightarrow> string \<Rightarrow> world \<Rightarrow> (error + unit) \<times> world" where
  "do_reset E kind device w = (sg_reset E kind device, log_event (Reset kind device) w)"

definition reset :: "env \<Rightarrow> string \<Rightarrow> bool \<Rightarrow> bool \<Rightarrow> bool \<Rightarrow> world \<Rightarrow> (error + unit) \<times> world" where
  "reset E device target host lun w =
     (if startswith (platform E) ''linux'' then
        (if target then do_reset E target_reset device w
         else if host then do_reset E host_reset device w
         else if lun then do_reset E lun_reset device w
         else (Inr (), w))
      else (Inl (NotImplementedError ''task management commands not supported on this platform''), w))"

subsection \<open>The entry point\<close>

text \<open>
  The dictionary \<^verbatim>\<open>docopt\<close> returns for the usage text of the module: one key for each
  command word, positional argument and option that the module reads.
\<close>

record arguments =
  arg_turs :: bool
  arg_inq :: bool
  arg_luns :: bool
  arg_rtpg :: bool
  arg_readcap :: bool
  arg_raw :: bool
  arg_logs :: bool
  arg_reset :: bool
  arg_device :: string
  arg_cdb :: "string list"
  opt_number :: string
  opt_page :: "string option"
  opt_select :: string
  opt_extended :: bool
  opt_long :: bool
  opt_request :: "string option"
  opt_outfile :: "string option"
  opt_infile :: string
  opt_send :: "string option"
  opt_target :: bool
  opt_host :: bool
  opt_device :: bool
  opt_raw :: bool
  opt_hex :: bool
  opt_json :: bool
  opt_verbose :: bool

text \<open>The module function \<^verbatim>\<open>set_formatters\<close>, on the global output context.\<close>

definition set_formatters :: "arguments \<Rightarrow> OutputContext \<Rightarrow> OutputContext" where
  "set_formatters a ctx =
     (let ctx1 =
            (if arg_readcap a then set_result_formatter ctx ReadcapOutputFormatter
             else if arg_luns a then set_result_formatter ctx LunsOutputFormatter
             else if arg_rtpg a then set_result_formatter ctx RtpgOutputFormatter
             else ctx)
      in if opt_hex a then OutputContext_set_formatters ctx1 HexOutputFormatter
         else if opt_raw a then OutputContext_set_formatters ctx1 RawOutputFormatter
         else if opt_json a then OutputContext_set_formatters ctx1 JsonOutputFormatter
         else ctx1)"

text \<open>The body of \<^verbatim>\<open>main\<close>, after \<^verbatim>\<open>docopt\<close> has parsed the command line.\<close>

definition main_body :: "env \<Rightarrow> arguments \<Rightarrow> world \<Rightarrow> (error + unit) \<times> world" where
  "main_body E a w =
     (let w1 = (if opt_verbose a
                then w\<lparr>ActiveOutputContext := enable_verbose (ActiveOutputContext w)\<rparr> else w);
          w2 = w1\<lparr>ActiveOutputContext := set_formatters a (ActiveOutputContext w1)\<rparr>
      in if arg_turs a then turs E (arg_device a) (opt_number a) w2
         else if arg_inq a then inq E (arg_device a) (opt_page a) w2
         else if arg_luns a then luns E (arg_device a) (opt_select a) w2
         else if arg_rtpg a then rtpg E (arg_device a) (opt_extended a) w2
         else if arg_readcap a then readcap E (arg_device a) (opt_long a) w2
         else if arg_raw a then
           raw E (arg_device a) (Tokens (arg_cdb a)) (opt_request a) (opt_outfile a)
             (opt_send a) (opt_infile a) w2
         else if arg_logs a then logs E (arg_device a) (opt_page a) w2
         else if arg_reset a then
           reset E (arg_device a) (opt_target a) (opt_host a) (opt_device a) w2
         else (Inr (), w2))"

text \<open>
  The decorator \<^verbatim>\<open>exception_handler\<close>: the wrapper returns what the function returns,
  returns \<^verbatim>\<open>None\<close> after a check condition, raises \<^verbatim>\<open>SystemExit(1)\<close> after the errors it
  prints, and lets every other exception through.
\<close>

definition exception_handler ::
  "env \<Rightarrow> (world \<Rightarrow> (error + 'a) \<times> world) \<Rightarrow> world \<Rightarrow> (error + 'a option) \<times> world" where
  "exception_handler E func w =
     (case func w of
        (Inr r, w') \<Rightarrow> (Inr (Some r), w')
      | (Inl error, w') \<Rightarrow>
          (case error of
             AsiCheckConditionError sense_obj \<Rightarrow>
               (Inr None, output_error E (ActiveOutputContext w') (PSense sense_obj) Stderr w')
           | ValueError _ \<Rightarrow> (Inl (SystemExit 1), print_to (str_of_error error) Stderr w')
           | NotImplementedError _ \<Rightarrow> (Inl (SystemExit 1), print_to (str_of_error error) Stderr w')
           | AsiOSError _ \<Rightarrow> (Inl (SystemExit 1), print_to (str_of_error error) Stderr w')
           | AsiSCSIError _ \<Rightarrow> (Inl (SystemExit 1), print_to (str_of_error error) Stderr w')
           | _ \<Rightarrow> (Inl error, w')))"

definition main :: "env \<Rightarrow> arguments \<Rightarrow> world \<Rightarrow> (error + unit option) \<times> world" where
  "main E a = exception_handler E (main_body E a)"

text \<open>
  The exit status of the interpreter when the entry point ends this way: 0 after a normal
  return, the code of a \<^verbatim>\<open>SystemExit\<close>, and 1 after any other exception, which reaches the
  top level uncaught.
\<close>

definition exit_status :: "error + 'a \<Rightarrow> int" where
  "exit_status r = (case r of Inr _ \<Rightarrow> 0 | Inl (SystemExit n) \<Rightarrow> n | Inl _ \<Rightarrow> 1)"

text \<open>The state of a fresh process: the default output context, nothing written, no event.\<close>

definition initial_world :: "string \<Rightarrow> (string \<rightharpoonup> string) \<Rightarrow> world" where
  "initial_world input fs =
     \<lparr>ActiveOutputContext = OutputContext_init, stdout = [], stderr = [], stdin = input,
      files = fs, events = []\<rparr>"

subsection \<open>A concrete environment\<close>

text \<open>
  The collaborators are parameters of every theorem below. To run the model on concrete
  inputs they are instantiated here: the platform and the executer are left open, the other
  fields are the simplest behaviour their interfaces allow.
\<close>

fun dehex :: "string \<Rightarrow> string option" where
  "dehex [] = Some []"
| "dehex [a] = None"
| "dehex (a # b # r) =
     (case (digit_value a, digit_value b, dehex r) of
        (Some h, Some l, Some bs) \<Rightarrow> Some (char_of (16 * h + l) # bs)
      | _ \<Rightarrow> None)"

text \<open>
  Modelled from the spec: \<^verbatim>\<open>restore\<close> of the \<^verbatim>\<open>hexdump\<close> package, an external library
  whose code is not part of the sources. The spec has it parse hex-byte tokens into the raw
  byte buffer and fail with a format error on malformed hex input; whitespace between the
  bytes is skipped.
\<close>

definition restore_hex :: "string \<Rightarrow> error + string" where
  "restore_hex dump =
     (case dehex (filter (\<lambda>c. \<not> isspace c) dump) of
        None \<Rightarrow> Inl (ValueError ''malformed hex input'')
      | Some bs \<Rightarrow> Inr bs)"

text \<open>An executer that answers a read of \<open>n\<close> bytes with \<open>n\<close> zero bytes and a write with nothing.\<close>

definition zero_executer :: executer where
  "zero_executer c =
     (case c of
        SCSIReadCommand d n \<Rightarrow> Inr (replicate (nat n) (CHR 0x00))
      | SCSIWriteCommand d x \<Rightarrow> Inr [])"

text \<open>An executer on which every sub-operation ends in a check condition.\<close>

definition failing_executer :: executer where
  "failing_executer c = Inl (AsiCheckConditionError ''sense'')"

text \<open>A formatter table that prefixes the text of the value with a letter for the formatter.\<close>

definition tag_format :: "formatter \<Rightarrow> printable \<Rightarrow> string" where
  "tag_format f p =
     (case f of
        DefaultOutputFormatter \<Rightarrow> ''D'' | ErrorOutputFormatter \<Rightarrow> ''E''
      | ReadcapOutputFormatter \<Rightarrow> ''C'' | LunsOutputFormatter \<Rightarrow> ''L''
      | RtpgOutputFormatter \<Rightarrow> ''P'' | HexOutputFormatter \<Rightarrow> ''H''
      | RawOutputFormatter \<Rightarrow> ''R'' | JsonOutputFormatter \<Rightarrow> ''J'') @
     (case p of
        PCommand c \<Rightarrow> (case c of RawCommand cdb \<Rightarrow> cdb_raw cdb | _ \<Rightarrow> [])
      | PResult r \<Rightarrow> r
      | PSense s \<Rightarrow> s)"

definition test_env :: "string \<Rightarrow> executer \<Rightarrow> env" where
  "test_env p asi =
     \<lparr>platform = p,
      get_sg_from_sd = (\<lambda>d. Inr ''/dev/sg0''),
      open_executer = (\<lambda>f d. Inr asi),
      library_execute = (\<lambda>c ex. ([SCSIReadCommand [] 0], ex (SCSIReadCommand [] 0))),
      restore = restore_hex,
      format = tag_format,
      get_vpd_page = (\<lambda>n. Some (VpdPageCommand n)),
      sg_reset = (\<lambda>k d. Inr ()),
      writable = (\<lambda>n. True)\<rparr>"

text \<open>The options of a command line that names no family and sets nothing.\<close>

definition no_arguments :: arguments where
  "no_arguments =
     \<lparr>arg_turs = False, arg_inq = False, arg_luns = False, arg_rtpg = False,
      arg_readcap = False, arg_raw = False, arg_logs = False, arg_reset = False,
      arg_device = ''/dev/sg0'', arg_cdb = [], opt_number = ''1'', opt_page = None,
      opt_select = ''0'', opt_extended = False, opt_long = False, opt_request = None,
      opt_outfile = None, opt_infile = ''<stdin>'', opt_send = None, opt_target = False,
      opt_host = False, opt_device = False, opt_raw = False, opt_hex = False,
      opt_json = False, opt_verbose = False\<rparr>"

text \<open>
  What the input source named by \<^verbatim>\<open>--infile\<close> holds when the builder turns to it: the unread
  standard input for \<^verbatim>\<open><stdin>\<close>, else the content of the named file, if there is one.
\<close>

definition input_source :: "string \<Rightarrow> world \<Rightarrow> string option" where
  "input_source input_file w = (if input_file = ''<stdin>'' then Some (stdin w) else files w input_file)"

text \<open>
  The command line of the raw family: no family named before \<^verbatim>\<open>raw\<close> in the dispatch of
  \<^verbatim>\<open>main\<close>, and the given device, tokens and options.
\<close>

definition raw_invocation ::
  "arguments \<Rightarrow> string \<Rightarrow> string list \<Rightarrow> string option \<Rightarrow> string option \<Rightarrow> string option
     \<Rightarrow> string \<Rightarrow> bool" where
  "raw_invocation a device tokens rq ofile sn ifile \<longleftrightarrow>
     \<not> arg_turs a \<and> \<not> arg_inq a \<and> \<not> arg_luns a \<and> \<not> arg_rtpg a \<and> \<not> arg_readcap a \<and> arg_raw a \<and>
     arg_device a = device \<and> arg_cdb a = tokens \<and> opt_request a = rq \<and> opt_outfile a = ofile \<and>
     opt_send a = sn \<and> opt_infile a = ifile"

text \<open>The state in which \<^verbatim>\<open>main\<close> dispatches: the output context set up from the options.\<close>

definition configured :: "arguments \<Rightarrow> world \<Rightarrow> world" where
  "configured a w =
     w\<lparr>ActiveOutputContext :=
         set_formatters a
           (if opt_verbose a then enable_verbose (ActiveOutputContext w)
            else ActiveOutputContext w)\<rparr>"

text \<open>The command line of the reset family with none of the three kinds chosen.\<close>

definition bare_reset_invocation :: "arguments \<Rightarrow> bool" where
  "bare_reset_invocation a \<longleftrightarrow>
     \<not> arg_turs a \<and> \<not> arg_inq a \<and> \<not> arg_luns a \<and> \<not> arg_rtpg a \<and> \<not> arg_readcap a \<and>
     \<not> arg_raw a \<and> \<not> arg_logs a \<and> arg_reset a \<and>
     \<not> opt_target a \<and> \<not> opt_host a \<and> \<not> opt_device a"

text \<open>The four operating-system families \<^verbatim>\<open>asi_context\<close> names.\<close>

definition recognised_platform :: "string \<Rightarrow> bool" where
  "recognised_platform p \<longleftrightarrow>
     startswith p ''windows'' \<or> startswith p ''linux'' \<or> startswith p ''solaris'' \<or>
     startswith p ''aix''"

section \<open>Properties\<close>

subsection \<open>The built-ins on the strings that reach them\<close>

lemma digit_not_space: "is_digit_in b c \<Longrightarrow> \<not> isspace c"
  by (auto simp: is_digit_in_def digit_value_def isspace_def Let_def split: if_splits option.splits)

lemma digit_not_sign: "is_digit_in b c \<Longrightarrow> c \<noteq> CHR ''-'' \<and> c \<noteq> CHR ''+''"
  by (auto simp: is_digit_in_def digit_value_def Let_def split: if_splits option.splits)

lemma prefix_chars:
  "\<not> is_digit_in 16 (CHR ''x'')" "\<not> isspace (CHR ''x'')"
  "\<not> isspace (CHR ''0'')" "is_digit_in 16 (CHR ''0'')"
  by (simp_all add: is_digit_in_def digit_value_def isspace_def)

lemma strip_prefix16_10: "strip_prefix16 10 s = s"
  by (simp add: strip_prefix16_def split: list.splits)

text \<open>On a string of decimal digits, \<^verbatim>\<open>int(s)\<close> is the number the digits denote.\<close>

lemma py_int_digits: "isdigit s \<Longrightarrow> py_int s 10 = Inr (digits_value 10 s)"
proof -
  assume "isdigit s"
  then obtain c r where s: "s = c # r" and c: "is_digit_in 10 c"
    and every: "list_all (is_digit_in 10) s"
    by (cases s) (auto simp: isdigit_def)
  have run: "takeWhile (is_digit_in 10) s = s" "dropWhile (is_digit_in 10) s = []"
    using every by (simp_all add: list_all_iff)
  have lead: "dropWhile isspace s = s"
    using s c digit_not_space by simp
  show ?thesis
    using digit_not_sign[OF c] run
    unfolding py_int_def lead strip_prefix16_10 Let_def
    by (simp add: s)
qed

text \<open>
  On a string that starts with \<^verbatim>\<open>0x\<close>, \<^verbatim>\<open>int(s, 16)\<close> is the number the hexadecimal digits
  after the prefix denote when there is at least one and only whitespace follows them, and
  raises otherwise.
\<close>

lemma py_int_0x:
  assumes "startswith s ''0x''"
  shows "py_int s 16 =
     (if takeWhile (is_digit_in 16) (drop 2 s) \<noteq> [] \<and>
         list_all isspace (dropWhile (is_digit_in 16) (drop 2 s))
      then Inr (digits_value 16 (takeWhile (is_digit_in 16) (drop 2 s)))
      else Inl (invalid_literal 16 s))"
proof -
  from assms obtain body where s: "s = CHR ''0'' # CHR ''x'' # body"
    by (cases s; cases "tl s") (auto simp: startswith_def)
  show ?thesis
  proof (cases body)
    case Nil
    then show ?thesis
      by (simp add: s py_int_def strip_prefix16_def prefix_chars)
  next
    case (Cons d rest)
    then show ?thesis
      by (simp add: s py_int_def strip_prefix16_def prefix_chars)
  qed
qed

lemma digits_value_nonneg: "0 \<le> digits_value b ds"
proof -
  have "0 \<le> a \<Longrightarrow> 0 \<le> foldl (\<lambda>acc c. acc * int b + int (the (digit_value c))) a ds" for a
    by (induction ds arbitrary: a) simp_all
  then show ?thesis by (simp add: digits_value_def)
qed

text \<open>A resolved length is never negative.\<close>

lemma resolve_length_nonneg: "resolve_length what l = Inr n \<Longrightarrow> 0 \<le> n"
  by (auto simp: resolve_length_def py_int_digits py_int_0x digits_value_nonneg
      split: option.splits if_splits)

subsection \<open>What a successful build has done\<close>

lemma build_raw_command_Inr:
  assumes "build_raw_command E cdb rq ofile sn ifile w = (Inr c, w')"
  shows "restore E (case cdb of Tokens ts \<Rightarrow> join '' '' ts | Text t \<Rightarrow> t) = Inr (cdb_raw c)"
    and "resolve_length ''request length'' rq = Inr (request_length c)"
    and "resolve_length ''send length'' sn = Inr (send_length c)"
    and "int (length (data c)) = send_length c"
  using assms
  by (auto simp: build_raw_command_def split: sum.splits prod.splits if_splits)

subsection \<open>Two concrete builds\<close>

lemma restore_hex_examples:
  "restore_hex ''2a 00'' = Inr [CHR 0x2a, CHR 0x00]"
  "restore_hex ''12 00'' = Inr [CHR 0x12, CHR 0x00]"
  "restore_hex ''12 34'' = Inr [CHR 0x12, CHR 0x34]"
  by code_simp+

lemma resolve_length_examples:
  "resolve_length ''send length'' (Some ''4'') = Inr 4"
  "resolve_length ''send length'' (Some ''10'') = Inr 10"
  "resolve_length ''request length'' (Some ''0x24'') = Inr 36"
  "resolve_length what None = Inr 0"
  by (code_simp, code_simp, code_simp, simp add: resolve_length_def)

text \<open>A write of four bytes taken from standard input.\<close>

lemma build_write_example:
  "build_raw_command (test_env ''linux'' zero_executer) (Tokens [''2a'', ''00'']) None None
     (Some ''4'') ''<stdin>'' (initial_world ''abcdef'' Map.empty) =
   (Inr \<lparr>cdb_raw = [CHR 0x2a, CHR 0x00], request_length = 0, send_length = 4, data = ''abcd''\<rparr>,
    (initial_world ''abcdef'' Map.empty)\<lparr>stdin := ''ef''\<rparr>)"
  by (simp add: build_raw_command_def test_env_def restore_hex_examples resolve_length_examples
      read_input_def read_bytes_def initial_world_def)

text \<open>A read of up to 36 bytes.\<close>

lemma build_read_example:
  "build_raw_command (test_env ''linux'' zero_executer) (Tokens [''12'', ''00'']) (Some ''0x24'')
     None None ''<stdin>'' (initial_world [] Map.empty) =
   (Inr \<lparr>cdb_raw = [CHR 0x12, CHR 0x00], request_length = 36, send_length = 0, data = []\<rparr>,
    initial_world [] Map.empty)"
  by (simp add: build_raw_command_def test_env_def restore_hex_examples resolve_length_examples)

subsection \<open>Length specifications\<close>

text \<open>
  C2 as the spec states it fails on the empty string: \<^verbatim>\<open>''.isdigit()\<close> is false and the
  empty string does not start with \<^verbatim>\<open>0x\<close>, so the last branch raises \<^verbatim>\<open>ValueError\<close> where
  the claim promises 0.
\<close>

theorem resolve_length_empty_string:
  "resolve_length ''request length'' (Some []) = Inl (ValueError ''invalid request length: '')
   \<and> resolve_length ''request length'' (Some []) \<noteq> Inr 0"
  by (simp add: resolve_length_def isdigit_def startswith_def)

text \<open>
  C2, amended: a length specification resolves to 0 when it is absent (\<^verbatim>\<open>None\<close>); to its
  base-10 value when it is a non-empty string of decimal digits; to \<^verbatim>\<open>int(L, 16)\<close> when it
  starts with \<^verbatim>\<open>0x\<close>, which is the value of the hexadecimal digits after the prefix and a
  \<^verbatim>\<open>ValueError\<close> when there is none or something other than whitespace follows them; and to
  a \<^verbatim>\<open>ValueError\<close> in every other case, the empty string included. The resolution happens
  during construction: the built command holds the two resolved numbers.
\<close>

theorem resolve_length_grammar:
  "resolve_length what None = Inr 0
   \<and> (isdigit s \<longrightarrow> resolve_length what (Some s) = Inr (digits_value 10 s))
   \<and> (\<not> isdigit s \<and> startswith s ''0x'' \<longrightarrow>
        resolve_length what (Some s) =
          (if takeWhile (is_digit_in 16) (drop 2 s) \<noteq> [] \<and>
              list_all isspace (dropWhile (is_digit_in 16) (drop 2 s))
           then Inr (digits_value 16 (takeWhile (is_digit_in 16) (drop 2 s)))
           else Inl (invalid_literal 16 s)))
   \<and> (\<not> isdigit s \<and> \<not> startswith s ''0x'' \<longrightarrow>
        resolve_length what (Some s) = Inl (ValueError (''invalid '' @ what @ '': '' @ s)))
   \<and> resolve_length what (Some []) = Inl (ValueError (''invalid '' @ what @ '': ''))
   \<and> (build_raw_command E cdb rq ofile sn ifile w = (Inr c, w') \<longrightarrow>
        resolve_length ''request length'' rq = Inr (request_length c) \<and>
        resolve_length ''send length'' sn = Inr (send_length c))"
proof (intro conjI impI)
  show "resolve_length what None = Inr 0"
    by (simp add: resolve_length_def)
  show "resolve_length what (Some s) = Inr (digits_value 10 s)" if "isdigit s"
    using that by (simp add: resolve_length_def py_int_digits)
  show "resolve_length what (Some s) =
          (if takeWhile (is_digit_in 16) (drop 2 s) \<noteq> [] \<and>
              list_all isspace (dropWhile (is_digit_in 16) (drop 2 s))
           then Inr (digits_value 16 (takeWhile (is_digit_in 16) (drop 2 s)))
           else Inl (invalid_literal 16 s))" if "\<not> isdigit s \<and> startswith s ''0x''"
    using that py_int_0x[of s] by (simp add: resolve_length_def)
  show "resolve_length what (Some s) = Inl (ValueError (''invalid '' @ what @ '': '' @ s))"
    if "\<not> isdigit s \<and> \<not> startswith s ''0x''"
    using that by (simp add: resolve_length_def)
  show "resolve_length what (Some []) = Inl (ValueError (''invalid '' @ what @ '': ''))"
    by (simp add: resolve_length_def isdigit_def startswith_def)
  show "resolve_length ''request length'' rq = Inr (request_length c)"
    if "build_raw_command E cdb rq ofile sn ifile w = (Inr c, w')"
    using that by (rule build_raw_command_Inr)
  show "resolve_length ''send length'' sn = Inr (send_length c)"
    if "build_raw_command E cdb rq ofile sn ifile w = (Inr c, w')"
    using that by (rule build_raw_command_Inr)
qed

theorem resolve_length_grammar_witness:
  "isdigit ''36'' \<and> resolve_length ''request length'' (Some ''36'') = Inr 36
   \<and> (\<not> isdigit ''0x24'' \<and> startswith ''0x24'' ''0x'')
   \<and> resolve_length ''send length'' (Some ''0x24'') = Inr 36
   \<and> (\<not> isdigit ''abc'' \<and> \<not> startswith ''abc'' ''0x'')
   \<and> resolve_length ''request length'' (Some ''abc'') =
        Inl (ValueError ''invalid request length: abc'')
   \<and> build_raw_command (test_env ''linux'' zero_executer) (Tokens [''2a'', ''00'']) None None
        (Some ''4'') ''<stdin>'' (initial_world ''abcdef'' Map.empty) =
      (Inr \<lparr>cdb_raw = [CHR 0x2a, CHR 0x00], request_length = 0, send_length = 4,
             data = ''abcd''\<rparr>,
       (initial_world ''abcdef'' Map.empty)\<lparr>stdin := ''ef''\<rparr>)
   \<and> resolve_length ''request length'' None = Inr 0
   \<and> resolve_length ''send length'' (Some ''4'') = Inr 4"
proof -
  have dec: "isdigit ''36''" "digits_value 10 ''36'' = 36"
    by code_simp+
  have hex: "\<not> isdigit ''0x24'' \<and> startswith ''0x24'' ''0x''"
    "takeWhile (is_digit_in 16) (drop 2 ''0x24'') = ''24''"
    "dropWhile (is_digit_in 16) (drop 2 ''0x24'') = []"
    "digits_value 16 ''24'' = 36"
    by code_simp+
  have bad: "\<not> isdigit ''abc'' \<and> \<not> startswith ''abc'' ''0x''"
    by code_simp
  have 1: "resolve_length ''request length'' (Some ''36'') = Inr 36"
    using resolve_length_grammar[where s = "''36''" and what = "''request length''"] dec
    by simp
  have 2: "resolve_length ''send length'' (Some ''0x24'') = Inr 36"
    using resolve_length_grammar[where s = "''0x24''" and what = "''send length''"] hex
    by simp
  have 3: "resolve_length ''request length'' (Some ''abc'') =
             Inl (ValueError ''invalid request length: abc'')"
    using resolve_length_grammar[where s = "''abc''" and what = "''request length''"] bad
    by simp
  have 4: "resolve_length ''request length'' None = Inr 0
           \<and> resolve_length ''send length'' (Some ''4'') = Inr 4"
    using resolve_length_grammar[where rq = None and sn = "Some ''4''"
        and E = "test_env ''linux'' zero_executer" and cdb = "Tokens [''2a'', ''00'']"
        and ofile = None and ifile = "''<stdin>''" and w = "initial_world ''abcdef'' Map.empty"]
      build_write_example
    by simp
  show ?thesis
    using dec(1) hex(1) bad 1 2 3 4 build_write_example by simp
qed

text \<open>The payload of a write command is what the input source holds, up to the send length.\<close>

lemma build_raw_command_data:
  assumes "build_raw_command E cdb rq ofile sn ifile w = (Inr c, w')"
    and "0 < send_length c"
  shows "\<exists>content. input_source ifile w = Some content
           \<and> data c = take (nat (send_length c)) content"
proof -
  from assms(1) obtain bytes rl sl where
    sl: "resolve_length ''send length'' sn = Inr sl" and
    rest: "(case (if sl \<noteq> 0 then read_input ifile sl w else (Inr [], w)) of
             (Inl e, w') \<Rightarrow> (Inl e, w')
           | (Inr d, w') \<Rightarrow>
               if int (length d) = sl
               then (Inr \<lparr>cdb_raw = bytes, request_length = rl, send_length = sl, data = d\<rparr>, w')
               else (Inl AssertionError, w')) = (Inr c, w')"
    by (auto simp: build_raw_command_def split: sum.splits)
  obtain r w1 where rd: "read_input ifile sl w = (r, w1)"
    by (cases "read_input ifile sl w")
  have pos: "0 < sl"
    using rest assms(2) rd by (auto split: if_splits sum.splits)
  from rest pos rd obtain d where r: "r = Inr d" and d: "data c = d"
    by (cases r) (auto split: if_splits)
  from rd r pos have "\<exists>content. input_source ifile w = Some content \<and> d = take (nat sl) content"
    by (auto simp: read_input_def read_bytes_def input_source_def split: if_splits option.splits)
  moreover have "send_length c = sl"
    using build_raw_command_Inr(3)[OF assms(1)] sl by simp
  ultimately show ?thesis
    using d by simp
qed

subsection \<open>Direction of a raw command\<close>

text \<open>
  C1: the direction of a built raw command is decided by the resolved send length alone.
  The send length a successful build has resolved is never negative. When it is positive,
  executing the command hands the executer exactly one sub-operation, the write of the
  payload, and returns what the executer answers to it; no read is handed over. The payload
  is the first bytes of the input source, as many as the send length. When the send length
  is zero, executing the command hands the executer exactly one read, whose length is the
  resolved request length, which is 0 when the request length was not given.
\<close>

theorem raw_command_direction:
  assumes "build_raw_command E cdb rq ofile sn ifile w = (Inr c, w')"
  shows "resolve_length ''send length'' sn = Inr (send_length c)
    \<and> resolve_length ''request length'' rq = Inr (request_length c)
    \<and> 0 \<le> send_length c
    \<and> (0 < send_length c \<longrightarrow>
          execute c asi =
            ([SCSIWriteCommand (create_datagram c) (data c)],
             asi (SCSIWriteCommand (create_datagram c) (data c)))
          \<and> int (length (data c)) = send_length c
          \<and> (\<exists>content. input_source ifile w = Some content
                \<and> data c = take (nat (send_length c)) content))
    \<and> (send_length c = 0 \<longrightarrow>
          execute c asi =
            ([SCSIReadCommand (create_datagram c) (request_length c)],
             asi (SCSIReadCommand (create_datagram c) (request_length c))))
    \<and> (rq = None \<longrightarrow> request_length c = 0)"
proof -
  note built = build_raw_command_Inr[OF assms]
  have nonneg: "0 \<le> send_length c"
    using built(3) by (rule resolve_length_nonneg)
  have none: "request_length c = 0" if "rq = None"
    using built(2) that by (simp add: resolve_length_def)
  have payload: "\<exists>content. input_source ifile w = Some content
                   \<and> data c = take (nat (send_length c)) content"
    if "0 < send_length c"
    using assms that by (rule build_raw_command_data)
  have wr: "execute c asi =
            ([SCSIWriteCommand (create_datagram c) (data c)],
             asi (SCSIWriteCommand (create_datagram c) (data c)))"
    if "0 < send_length c"
    using that by (simp add: execute_def Let_def)
  have rd: "execute c asi =
            ([SCSIReadCommand (create_datagram c) (request_length c)],
             asi (SCSIReadCommand (create_datagram c) (request_length c)))"
    if "send_length c = 0"
    using that by (simp add: execute_def Let_def)
  show ?thesis
    using built(2,3,4) nonneg none payload wr rd by blast
qed

theorem raw_command_direction_witness:
  "build_raw_command (test_env ''linux'' zero_executer) (Tokens [''2a'', ''00'']) None None
     (Some ''4'') ''<stdin>'' (initial_world ''abcdef'' Map.empty) =
   (Inr \<lparr>cdb_raw = [CHR 0x2a, CHR 0x00], request_length = 0, send_length = 4,
          data = ''abcd''\<rparr>,
    (initial_world ''abcdef'' Map.empty)\<lparr>stdin := ''ef''\<rparr>)
   \<and> execute \<lparr>cdb_raw = [CHR 0x2a, CHR 0x00], request_length = 0, send_length = 4,
               data = ''abcd''\<rparr> zero_executer =
       ([SCSIWriteCommand [CHR 0x2a, CHR 0x00] ''abcd''],
        zero_executer (SCSIWriteCommand [CHR 0x2a, CHR 0x00] ''abcd''))
   \<and> (\<exists>content. input_source ''<stdin>'' (initial_world ''abcdef'' Map.empty) = Some content
         \<and> ''abcd'' = take (nat 4) content)
   \<and> build_raw_command (test_env ''linux'' zero_executer) (Tokens [''12'', ''00''])
       (Some ''0x24'') None None ''<stdin>'' (initial_world [] Map.empty) =
     (Inr \<lparr>cdb_raw = [CHR 0x12, CHR 0x00], request_length = 36, send_length = 0, data = []\<rparr>,
      initial_world [] Map.empty)
   \<and> execute \<lparr>cdb_raw = [CHR 0x12, CHR 0x00], request_length = 36, send_length = 0,
               data = []\<rparr> zero_executer =
       ([SCSIReadCommand [CHR 0x12, CHR 0x00] 36],
        zero_executer (SCSIReadCommand [CHR 0x12, CHR 0x00] 36))"
  using raw_command_direction[OF build_write_example, of zero_executer]
    raw_command_direction[OF build_read_example, of zero_executer]
    build_write_example build_read_example
  by (simp add: create_datagram_def)

subsection \<open>The datagram of a raw command\<close>

text \<open>
  C7: the builder joins the tokens \<^verbatim>\<open>12\<close> and \<^verbatim>\<open>34\<close> with a space, hands the text to
  \<^verbatim>\<open>hexdump.restore\<close> and keeps what it returns as the datagram. With \<^verbatim>\<open>restore\<close> decoding
  that text to the bytes 0x12 0x34, the build without lengths succeeds and
  \<^verbatim>\<open>create_datagram\<close> of the built command is exactly these two bytes, as it is for every
  other successful build from these tokens.
\<close>

theorem raw_command_datagram_roundtrip:
  assumes "restore E ''12 34'' = Inr [CHR 0x12, CHR 0x34]"
  shows "(\<exists>c. build_raw_command E (Tokens [''12'', ''34'']) None ofile None ifile w = (Inr c, w)
              \<and> create_datagram c = [CHR 0x12, CHR 0x34])
    \<and> (build_raw_command E (Tokens [''12'', ''34'']) rq ofile sn ifile w = (Inr c', w') \<longrightarrow>
          create_datagram c' = [CHR 0x12, CHR 0x34])"
proof
  show "\<exists>c. build_raw_command E (Tokens [''12'', ''34'']) None ofile None ifile w = (Inr c, w)
              \<and> create_datagram c = [CHR 0x12, CHR 0x34]"
    using assms by (simp add: build_raw_command_def resolve_length_def create_datagram_def)
  show "build_raw_command E (Tokens [''12'', ''34'']) rq ofile sn ifile w = (Inr c', w') \<longrightarrow>
          create_datagram c' = [CHR 0x12, CHR 0x34]"
  proof
    assume "build_raw_command E (Tokens [''12'', ''34'']) rq ofile sn ifile w = (Inr c', w')"
    from build_raw_command_Inr(1)[OF this] assms
    show "create_datagram c' = [CHR 0x12, CHR 0x34]"
      by (simp add: create_datagram_def)
  qed
qed

lemma build_roundtrip_example:
  "build_raw_command (test_env ''linux'' zero_executer) (Tokens [''12'', ''34'']) None None None
     ''<stdin>'' (initial_world [] Map.empty) =
   (Inr \<lparr>cdb_raw = [CHR 0x12, CHR 0x34], request_length = 0, send_length = 0, data = []\<rparr>,
    initial_world [] Map.empty)"
  by (simp add: build_raw_command_def test_env_def restore_hex_examples resolve_length_examples)

theorem raw_command_datagram_roundtrip_witness:
  "restore (test_env ''linux'' zero_executer) ''12 34'' = Inr [CHR 0x12, CHR 0x34]
   \<and> (\<exists>c. build_raw_command (test_env ''linux'' zero_executer) (Tokens [''12'', ''34'']) None
             None None ''<stdin>'' (initial_world [] Map.empty) =
           (Inr c, initial_world [] Map.empty)
         \<and> create_datagram c = [CHR 0x12, CHR 0x34])
   \<and> build_raw_command (test_env ''linux'' zero_executer) (Tokens [''12'', ''34'']) None None None
        ''<stdin>'' (initial_world [] Map.empty) =
      (Inr \<lparr>cdb_raw = [CHR 0x12, CHR 0x34], request_length = 0, send_length = 0, data = []\<rparr>,
       initial_world [] Map.empty)
   \<and> create_datagram
        \<lparr>cdb_raw = [CHR 0x12, CHR 0x34], request_length = 0, send_length = 0, data = []\<rparr> =
      [CHR 0x12, CHR 0x34]"
proof -
  have decoded: "restore (test_env ''linux'' zero_executer) ''12 34'' = Inr [CHR 0x12, CHR 0x34]"
    by (simp add: test_env_def restore_hex_examples)
  from raw_command_datagram_roundtrip[OF decoded, of None "''<stdin>''"
      "initial_world [] Map.empty" None None
      "\<lparr>cdb_raw = [CHR 0x12, CHR 0x34], request_length = 0, send_length = 0, data = []\<rparr>"
      "initial_world [] Map.empty"]
    decoded build_roundtrip_example
  show ?thesis by blast
qed

subsection \<open>Frames: what the builder and the dispatch leave alone\<close>

lemma world_stdin_same: "\<exists>i. w = w\<lparr>stdin := i\<rparr>"
  by (rule exI[of _ "stdin w"]) simp

lemma read_input_frame: "read_input ifile n w = (r, w') \<Longrightarrow> \<exists>i. w' = w\<lparr>stdin := i\<rparr>"
  using world_stdin_same[of w]
  by (auto simp: read_input_def split: if_splits option.splits)

text \<open>The builder touches nothing but standard input.\<close>

lemma build_raw_command_frame:
  "build_raw_command E cdb rq ofile sn ifile w = (r, w') \<Longrightarrow> \<exists>i. w' = w\<lparr>stdin := i\<rparr>"
  using world_stdin_same[of w]
  by (auto simp: build_raw_command_def split: sum.splits prod.splits if_splits
      dest: read_input_frame)

lemma input_source_frame [simp]:
  "input_source ifile (w\<lparr>ActiveOutputContext := c\<rparr>) = input_source ifile w"
  by (simp add: input_source_def)

text \<open>A build that finds its input short raises the assertion error.\<close>

lemma build_raw_command_short:
  assumes "restore E (case cdb of Tokens ts \<Rightarrow> join '' '' ts | Text t \<Rightarrow> t) = Inr bytes"
    and "resolve_length ''request length'' rq = Inr rl"
    and "resolve_length ''send length'' sn = Inr n"
    and "0 < n"
    and "input_source ifile w = Some content"
    and "int (length content) < n"
  shows "fst (build_raw_command E cdb rq ofile sn ifile w) = Inl AssertionError"
proof -
  have "fst (read_input ifile n w) = Inr (take (nat n) content)"
    using assms(4,5) by (auto simp: read_input_def read_bytes_def input_source_def split: if_splits)
  moreover have "int (length (take (nat n) content)) \<noteq> n"
    using assms(4,6) by simp
  ultimately show ?thesis
    using assms(1-4)
    by (cases "read_input ifile n w") (simp add: build_raw_command_def)
qed

text \<open>When the build fails, \<^verbatim>\<open>raw\<close> ends there.\<close>

lemma raw_build_failed:
  "fst (build_raw_command E cdb rq ofile sn ifile w) = Inl e \<Longrightarrow>
   raw E device cdb rq ofile sn ifile w = (Inl e, snd (build_raw_command E cdb rq ofile sn ifile w))"
  by (cases "build_raw_command E cdb rq ofile sn ifile w") (simp add: raw_def)

text \<open>The dispatch of \<^verbatim>\<open>main\<close> on a command line of the raw family.\<close>

lemma main_body_raw:
  "raw_invocation a device tokens rq ofile sn ifile \<Longrightarrow>
   main_body E a w = raw E device (Tokens tokens) rq ofile sn ifile (configured a w)"
  by (simp add: raw_invocation_def main_body_def configured_def Let_def)

lemma configured_frame [simp]:
  "events (configured a w) = events w" "files (configured a w) = files w"
  "stdin (configured a w) = stdin w" "stdout (configured a w) = stdout w"
  "stderr (configured a w) = stderr w"
  "input_source ifile (configured a w) = input_source ifile w"
  by (simp_all add: configured_def)

subsection \<open>Incomplete input\<close>

text \<open>
  C3: when the send length resolves to a positive number and the input source holds fewer
  bytes than that, the build raises the assertion error of its length check (the
  incomplete-input error), so no command with a padded or truncated payload comes to exist;
  \<^verbatim>\<open>raw\<close> ends with that error without an executer opened or a sub-operation called, and
  the process started on such a command line ends with exit status 1.
\<close>

theorem short_input_fails:
  assumes "restore E (case cdb of Tokens ts \<Rightarrow> join '' '' ts | Text t \<Rightarrow> t) = Inr bytes"
    and "resolve_length ''request length'' rq = Inr rl"
    and "resolve_length ''send length'' sn = Inr n"
    and "0 < n"
    and "input_source ifile w = Some content"
    and "int (length content) < n"
  shows "fst (build_raw_command E cdb rq ofile sn ifile w) = Inl AssertionError
    \<and> fst (raw E device cdb rq ofile sn ifile w) = Inl AssertionError
    \<and> events (snd (raw E device cdb rq ofile sn ifile w)) = events w
    \<and> (\<forall>tokens. cdb = Tokens tokens \<and> raw_invocation a device tokens rq ofile sn ifile \<longrightarrow>
          fst (main E a w) = Inl AssertionError
          \<and> exit_status (fst (main E a w)) = 1
          \<and> events (snd (main E a w)) = events w)"
proof -
  have build: "fst (build_raw_command E cdb rq ofile sn ifile w0) = Inl AssertionError"
    if "input_source ifile w0 = Some content" for w0
    using assms(1-4) that assms(6) by (rule build_raw_command_short)
  have run: "fst (raw E device cdb rq ofile sn ifile w0) = Inl AssertionError
             \<and> events (snd (raw E device cdb rq ofile sn ifile w0)) = events w0"
    if src: "input_source ifile w0 = Some content" for w0
  proof -
    obtain r w1 where b: "build_raw_command E cdb rq ofile sn ifile w0 = (r, w1)"
      by (cases "build_raw_command E cdb rq ofile sn ifile w0")
    from build_raw_command_frame[OF b] have "events w1 = events w0" by auto
    then show ?thesis
      using raw_build_failed[OF build[OF src], of device] b by simp
  qed
  have top: "fst (main E a w) = Inl AssertionError
             \<and> exit_status (fst (main E a w)) = 1
             \<and> events (snd (main E a w)) = events w"
    if "cdb = Tokens tokens" and inv: "raw_invocation a device tokens rq ofile sn ifile" for tokens
  proof -
    have src: "input_source ifile (configured a w) = Some content"
      using assms(5) by simp
    obtain w1 where r: "raw E device cdb rq ofile sn ifile (configured a w) = (Inl AssertionError, w1)"
      and ev: "events w1 = events w"
      using run[OF src] by (cases "raw E device cdb rq ofile sn ifile (configured a w)") auto
    have "main E a w = (Inl AssertionError, w1)"
      using r that by (simp add: main_def exception_handler_def main_body_raw[OF inv])
    then show ?thesis
      using ev by (simp add: exit_status_def)
  qed
  show ?thesis
    using build[OF assms(5)] run[OF assms(5)] top by blast
qed

theorem short_input_fails_witness:
  "restore (test_env ''linux'' zero_executer) (join '' '' [''2a'', ''00'']) = Inr [CHR 0x2a, CHR 0x00]
   \<and> resolve_length ''request length'' None = Inr 0
   \<and> resolve_length ''send length'' (Some ''10'') = Inr 10
   \<and> (0::int) < 10
   \<and> input_source ''<stdin>'' (initial_world ''abcd'' Map.empty) = Some ''abcd''
   \<and> int (length ''abcd'') < 10
   \<and> raw_invocation
        (no_arguments\<lparr>arg_raw := True, arg_cdb := [''2a'', ''00''], opt_send := Some ''10''\<rparr>)
        ''/dev/sg0'' [''2a'', ''00''] None None (Some ''10'') ''<stdin>''
   \<and> fst (build_raw_command (test_env ''linux'' zero_executer) (Tokens [''2a'', ''00'']) None None
            (Some ''10'') ''<stdin>'' (initial_world ''abcd'' Map.empty)) = Inl AssertionError
   \<and> fst (main (test_env ''linux'' zero_executer)
            (no_arguments\<lparr>arg_raw := True, arg_cdb := [''2a'', ''00''], opt_send := Some ''10''\<rparr>)
            (initial_world ''abcd'' Map.empty)) = Inl AssertionError
   \<and> exit_status (fst (main (test_env ''linux'' zero_executer)
            (no_arguments\<lparr>arg_raw := True, arg_cdb := [''2a'', ''00''], opt_send := Some ''10''\<rparr>)
            (initial_world ''abcd'' Map.empty))) = 1
   \<and> events (snd (main (test_env ''linux'' zero_executer)
            (no_arguments\<lparr>arg_raw := True, arg_cdb := [''2a'', ''00''], opt_send := Some ''10''\<rparr>)
            (initial_world ''abcd'' Map.empty))) = []"
proof -
  have h1: "restore (test_env ''linux'' zero_executer)
              (case Tokens [''2a'', ''00''] of Tokens ts \<Rightarrow> join '' '' ts | Text t \<Rightarrow> t) =
            Inr [CHR 0x2a, CHR 0x00]"
    by (simp add: test_env_def restore_hex_examples)
  have h2: "resolve_length ''request length'' None = Inr 0"
    by (rule resolve_length_examples)
  have h3: "resolve_length ''send length'' (Some ''10'') = Inr 10"
    by (rule resolve_length_examples)
  have h4: "(0::int) < 10" by simp
  have h5: "input_source ''<stdin>'' (initial_world ''abcd'' Map.empty) = Some ''abcd''"
    by (simp add: input_source_def initial_world_def)
  have h6: "int (length ''abcd'') < 10" by simp
  have h7: "raw_invocation
        (no_arguments\<lparr>arg_raw := True, arg_cdb := [''2a'', ''00''], opt_send := Some ''10''\<rparr>)
        ''/dev/sg0'' [''2a'', ''00''] None None (Some ''10'') ''<stdin>''"
    by (simp add: raw_invocation_def no_arguments_def)
  have h8: "events (initial_world ''abcd'' Map.empty) = []"
    by (simp add: initial_world_def)
  from short_input_fails[OF h1 h2 h3 h4 h5 h6, of None "''/dev/sg0''"
      "no_arguments\<lparr>arg_raw := True, arg_cdb := [''2a'', ''00''], opt_send := Some ''10''\<rparr>"]
    h1 h2 h3 h5 h7 h8
  show ?thesis
    by (simp add: exit_status_def)
qed

subsection \<open>Formatter selection\<close>

text \<open>
  C5: the choice of the formatters is a function of the flags with the fixed precedence
  hex, raw, json. With \<^verbatim>\<open>--hex\<close> both the command and the result formatter are the hex
  formatter whatever the other two flags are; otherwise with \<^verbatim>\<open>--raw\<close> both are the raw
  formatter; otherwise with \<^verbatim>\<open>--json\<close> both are the JSON formatter; otherwise the command
  formatter is untouched and the result formatter is the one of the family (capacity,
  logical units, port groups) or, for the other families, the one that was there.
\<close>

theorem formatter_precedence:
  "(opt_hex a \<longrightarrow>
      command_formatter (set_formatters a ctx) = HexOutputFormatter \<and>
      result_formatter (set_formatters a ctx) = HexOutputFormatter)
   \<and> (\<not> opt_hex a \<and> opt_raw a \<longrightarrow>
      command_formatter (set_formatters a ctx) = RawOutputFormatter \<and>
      result_formatter (set_formatters a ctx) = RawOutputFormatter)
   \<and> (\<not> opt_hex a \<and> \<not> opt_raw a \<and> opt_json a \<longrightarrow>
      command_formatter (set_formatters a ctx) = JsonOutputFormatter \<and>
      result_formatter (set_formatters a ctx) = JsonOutputFormatter)
   \<and> (\<not> opt_hex a \<and> \<not> opt_raw a \<and> \<not> opt_json a \<longrightarrow>
      command_formatter (set_formatters a ctx) = command_formatter ctx \<and>
      result_formatter (set_formatters a ctx) =
        (if arg_readcap a then ReadcapOutputFormatter
         else if arg_luns a then LunsOutputFormatter
         else if arg_rtpg a then RtpgOutputFormatter
         else result_formatter ctx))
   \<and> verbose (set_formatters a ctx) = verbose ctx"
  by (simp add: set_formatters_def OutputContext_set_formatters_def set_command_formatter_def
      set_result_formatter_def Let_def)

theorem formatter_precedence_witness:
  "opt_hex (no_arguments\<lparr>opt_hex := True, opt_json := True\<rparr>)
   \<and> command_formatter (set_formatters (no_arguments\<lparr>opt_hex := True, opt_json := True\<rparr>)
        OutputContext_init) = HexOutputFormatter
   \<and> result_formatter (set_formatters (no_arguments\<lparr>opt_hex := True, opt_json := True\<rparr>)
        OutputContext_init) = HexOutputFormatter
   \<and> (\<not> opt_hex (no_arguments\<lparr>opt_raw := True, opt_json := True\<rparr>)
        \<and> opt_raw (no_arguments\<lparr>opt_raw := True, opt_json := True\<rparr>))
   \<and> result_formatter (set_formatters (no_arguments\<lparr>opt_raw := True, opt_json := True\<rparr>)
        OutputContext_init) = RawOutputFormatter
   \<and> (\<not> opt_hex (no_arguments\<lparr>arg_luns := True, opt_json := True\<rparr>)
        \<and> \<not> opt_raw (no_arguments\<lparr>arg_luns := True, opt_json := True\<rparr>)
        \<and> opt_json (no_arguments\<lparr>arg_luns := True, opt_json := True\<rparr>))
   \<and> result_formatter (set_formatters (no_arguments\<lparr>arg_luns := True, opt_json := True\<rparr>)
        OutputContext_init) = JsonOutputFormatter
   \<and> (\<not> opt_hex (no_arguments\<lparr>arg_luns := True\<rparr>) \<and> \<not> opt_raw (no_arguments\<lparr>arg_luns := True\<rparr>)
        \<and> \<not> opt_json (no_arguments\<lparr>arg_luns := True\<rparr>))
   \<and> result_formatter (set_formatters (no_arguments\<lparr>arg_luns := True\<rparr>) OutputContext_init) =
        LunsOutputFormatter
   \<and> command_formatter (set_formatters (no_arguments\<lparr>arg_luns := True\<rparr>) OutputContext_init) =
        DefaultOutputFormatter"
  using formatter_precedence[of "no_arguments\<lparr>opt_hex := True, opt_json := True\<rparr>"
      OutputContext_init]
    formatter_precedence[of "no_arguments\<lparr>opt_raw := True, opt_json := True\<rparr>"
      OutputContext_init]
    formatter_precedence[of "no_arguments\<lparr>arg_luns := True, opt_json := True\<rparr>"
      OutputContext_init]
    formatter_precedence[of "no_arguments\<lparr>arg_luns := True\<rparr>" OutputContext_init]
  by (simp add: no_arguments_def OutputContext_init_def)

subsection \<open>Error output\<close>

text \<open>
  C8: \<^verbatim>\<open>output_error\<close> prints what the error formatter makes of the value, whatever the
  output context holds: two contexts give the same output, also after the formatters were
  overridden from the flags.
\<close>

theorem output_error_fixed_formatter:
  "output_error E self result file w = print_to (format E ErrorOutputFormatter result) file w
   \<and> output_error E self result file w = output_error E self' result file w
   \<and> output_error E (set_formatters a self) result file w = output_error E self result file w
   \<and> stderr (output_error E self result Stderr w) =
       stderr w @ format E ErrorOutputFormatter result @ [CHR 0x0A]
   \<and> stdout (output_error E self result Stdout w) =
       stdout w @ format E ErrorOutputFormatter result @ [CHR 0x0A]"
  by (simp add: output_error_def print_to_def)

subsection \<open>The top-level handler\<close>

lemma exception_handler_returned:
  "func w = (Inr r, w') \<Longrightarrow> exception_handler E func w = (Inr (Some r), w')"
  by (simp add: exception_handler_def)

lemma exception_handler_not_implemented:
  "func w = (Inl (NotImplementedError m), w') \<Longrightarrow>
   exception_handler E func w = (Inl (SystemExit 1), print_to m Stderr w')"
  by (simp add: exception_handler_def)

lemma print_to_events [simp]: "events (print_to s f w) = events w"
  by (cases f) (simp_all add: print_to_def)

subsection \<open>Reset without a kind\<close>

text \<open>
  C10: on a Linux host, \<^verbatim>\<open>reset\<close> with none of \<^verbatim>\<open>--target\<close>, \<^verbatim>\<open>--host\<close> and \<^verbatim>\<open>--device\<close>
  calls no function of \<^verbatim>\<open>sg_reset\<close> and raises nothing: it returns with the state as it
  was, and the process started on such a command line writes nothing, touches no device
  and ends with exit status 0.
\<close>

theorem reset_without_kind:
  assumes "startswith (platform E) ''linux''"
  shows "reset E device False False False w = (Inr (), w)
    \<and> (bare_reset_invocation a \<longrightarrow>
          main E a w = (Inr (Some ()), configured a w)
          \<and> exit_status (fst (main E a w)) = 0
          \<and> events (snd (main E a w)) = events w
          \<and> stdout (snd (main E a w)) = stdout w
          \<and> stderr (snd (main E a w)) = stderr w)"
proof
  show bare: "reset E device False False False w = (Inr (), w)" for device w
    using assms by (simp add: reset_def)
  show "bare_reset_invocation a \<longrightarrow>
          main E a w = (Inr (Some ()), configured a w)
          \<and> exit_status (fst (main E a w)) = 0
          \<and> events (snd (main E a w)) = events w
          \<and> stdout (snd (main E a w)) = stdout w
          \<and> stderr (snd (main E a w)) = stderr w"
  proof
    assume inv: "bare_reset_invocation a"
    then have "main_body E a w = reset E (arg_device a) False False False (configured a w)"
      by (simp add: bare_reset_invocation_def main_body_def configured_def Let_def)
    then have "main_body E a w = (Inr (), configured a w)"
      by (simp add: bare)
    then have "main E a w = (Inr (Some ()), configured a w)"
      unfolding main_def by (rule exception_handler_returned)
    then show "main E a w = (Inr (Some ()), configured a w)
          \<and> exit_status (fst (main E a w)) = 0
          \<and> events (snd (main E a w)) = events w
          \<and> stdout (snd (main E a w)) = stdout w
          \<and> stderr (snd (main E a w)) = stderr w"
      by (simp add: exit_status_def)
  qed
qed

theorem reset_without_kind_witness:
  "startswith (platform (test_env ''linux2'' zero_executer)) ''linux''
   \<and> bare_reset_invocation (no_arguments\<lparr>arg_reset := True\<rparr>)
   \<and> reset (test_env ''linux2'' zero_executer) ''/dev/sg0'' False False False
        (initial_world [] Map.empty) = (Inr (), initial_world [] Map.empty)
   \<and> exit_status (fst (main (test_env ''linux2'' zero_executer) (no_arguments\<lparr>arg_reset := True\<rparr>)
        (initial_world [] Map.empty))) = 0
   \<and> events (snd (main (test_env ''linux2'' zero_executer) (no_arguments\<lparr>arg_reset := True\<rparr>)
        (initial_world [] Map.empty))) = []
   \<and> stdout (snd (main (test_env ''linux2'' zero_executer) (no_arguments\<lparr>arg_reset := True\<rparr>)
        (initial_world [] Map.empty))) = []
   \<and> stderr (snd (main (test_env ''linux2'' zero_executer) (no_arguments\<lparr>arg_reset := True\<rparr>)
        (initial_world [] Map.empty))) = []"
proof -
  have linux: "startswith (platform (test_env ''linux2'' zero_executer)) ''linux''"
    by (simp add: test_env_def startswith_def)
  have inv: "bare_reset_invocation (no_arguments\<lparr>arg_reset := True\<rparr>)"
    by (simp add: bare_reset_invocation_def no_arguments_def)
  have fresh: "events (initial_world [] Map.empty) = []" "stdout (initial_world [] Map.empty) = []"
    "stderr (initial_world [] Map.empty) = []"
    by (simp_all add: initial_world_def)
  from reset_without_kind[OF linux, of "''/dev/sg0''" "initial_world [] Map.empty"
      "no_arguments\<lparr>arg_reset := True\<rparr>"] linux inv fresh
  show ?thesis by (simp add: exit_status_def)
qed

subsection \<open>Unsupported platforms\<close>

text \<open>
  C6: the resolver knows four operating-system families. On a platform string outside
  them the choice of the executer raises \<^verbatim>\<open>NotImplementedError\<close>, so \<^verbatim>\<open>asi_context\<close> ends
  with that error before an executer is opened and without running its block, the handler
  prints the message to standard error and raises \<^verbatim>\<open>SystemExit(1)\<close>, and the process ends
  with exit status 1. On a platform string inside the four families the choice does not
  raise that error (unless the lookup of the generic device itself does).
\<close>

theorem unsupported_platform:
  "(\<not> recognised_platform (platform E) \<longrightarrow>
      select_executer E device = Inl (NotImplementedError ''this platform is not supported'')
      \<and> asi_context E device body w =
          (Inl (NotImplementedError ''this platform is not supported''), w)
      \<and> exception_handler E (asi_context E device body) w =
          (Inl (SystemExit 1), print_to ''this platform is not supported'' Stderr w)
      \<and> exit_status (fst (exception_handler E (asi_context E device body) w)) = 1
      \<and> events (snd (exception_handler E (asi_context E device body) w)) = events w
      \<and> (arg_turs a \<longrightarrow>
            exit_status (fst (main E a w)) = 1 \<and> events (snd (main E a w)) = events w))
   \<and> (recognised_platform (platform E)
        \<and> get_sg_from_sd E device \<noteq> Inl (NotImplementedError ''this platform is not supported'')
      \<longrightarrow> select_executer E device \<noteq> Inl (NotImplementedError ''this platform is not supported''))"
proof (intro conjI impI)
  assume un: "\<not> recognised_platform (platform E)"
  show sel: "select_executer E d = Inl (NotImplementedError ''this platform is not supported'')"
    for d
    using un by (simp add: select_executer_def recognised_platform_def)
  show ctx: "asi_context E d b w0 = (Inl (NotImplementedError ''this platform is not supported''), w0)"
    for d w0 and b :: "executer \<Rightarrow> world \<Rightarrow> (error + 'b) \<times> world"
    by (simp add: asi_context_def sel)
  show handled: "exception_handler E (asi_context E d b) w0 =
          (Inl (SystemExit 1), print_to ''this platform is not supported'' Stderr w0)"
    for d w0 and b :: "executer \<Rightarrow> world \<Rightarrow> (error + 'b) \<times> world"
    using ctx[of d b w0] by (rule exception_handler_not_implemented)
  show "exit_status (fst (exception_handler E (asi_context E device body) w)) = 1"
    by (simp add: handled exit_status_def)
  show "events (snd (exception_handler E (asi_context E device body) w)) = events w"
    by (simp add: handled)
  assume "arg_turs a"
  then have "main E a w = exception_handler E
      (asi_context E (arg_device a)
         (\<lambda>asi w'. case py_int (opt_number a) 10 of
                      Inl e \<Rightarrow> (Inl e, w')
                    | Inr n \<Rightarrow> turs_loop E asi (nat n) w')) (configured a w)"
    unfolding main_def exception_handler_def
    by (simp add: main_body_def turs_def configured_def Let_def)
  then have m: "main E a w =
      (Inl (SystemExit 1), print_to ''this platform is not supported'' Stderr (configured a w))"
    by (simp add: handled)
  show "exit_status (fst (main E a w)) = 1"
    by (simp add: m exit_status_def)
  show "events (snd (main E a w)) = events w"
    by (simp add: m)
next
  assume "recognised_platform (platform E)
        \<and> get_sg_from_sd E device \<noteq> Inl (NotImplementedError ''this platform is not supported'')"
  then show "select_executer E device \<noteq> Inl (NotImplementedError ''this platform is not supported'')"
    by (auto simp: select_executer_def recognised_platform_def split: sum.splits)
qed

theorem unsupported_platform_witness:
  "\<not> recognised_platform (platform (test_env ''darwin'' zero_executer))
   \<and> asi_context (test_env ''darwin'' zero_executer) ''/dev/sg0''
        (\<lambda>asi. sync_wait_stmt (test_env ''darwin'' zero_executer) asi ReadCapacity10Command)
        (initial_world [] Map.empty) =
      (Inl (NotImplementedError ''this platform is not supported''), initial_world [] Map.empty)
   \<and> arg_turs (no_arguments\<lparr>arg_turs := True\<rparr>)
   \<and> exit_status (fst (main (test_env ''darwin'' zero_executer) (no_arguments\<lparr>arg_turs := True\<rparr>)
        (initial_world [] Map.empty))) = 1
   \<and> events (snd (main (test_env ''darwin'' zero_executer) (no_arguments\<lparr>arg_turs := True\<rparr>)
        (initial_world [] Map.empty))) = []
   \<and> recognised_platform (platform (test_env ''aix7'' zero_executer))
   \<and> get_sg_from_sd (test_env ''aix7'' zero_executer) ''/dev/rhdisk0'' \<noteq>
        Inl (NotImplementedError ''this platform is not supported'')
   \<and> select_executer (test_env ''aix7'' zero_executer) ''/dev/rhdisk0'' \<noteq>
        Inl (NotImplementedError ''this platform is not supported'')"
proof -
  have un: "\<not> recognised_platform (platform (test_env ''darwin'' zero_executer))"
    by (simp add: test_env_def recognised_platform_def startswith_def)
  have re: "recognised_platform (platform (test_env ''aix7'' zero_executer))"
    by (simp add: test_env_def recognised_platform_def startswith_def)
  have sg: "get_sg_from_sd (test_env ''aix7'' zero_executer) ''/dev/rhdisk0'' \<noteq>
        Inl (NotImplementedError ''this platform is not supported'')"
    by (simp add: test_env_def)
  have fresh: "events (initial_world [] Map.empty) = []"
    by (simp add: initial_world_def)
  from unsupported_platform[of "test_env ''darwin'' zero_executer" "''/dev/sg0''"
      "\<lambda>asi. sync_wait_stmt (test_env ''darwin'' zero_executer) asi ReadCapacity10Command"
      "initial_world [] Map.empty" "no_arguments\<lparr>arg_turs := True\<rparr>"]
    unsupported_platform[of "test_env ''aix7'' zero_executer" "''/dev/rhdisk0''"]
    un re sg fresh
  show ?thesis by (simp add: exit_status_def)
qed

subsection \<open>Check conditions\<close>

text \<open>
  C9: when the dispatch raises the check-condition error, the handler prints the sense
  object through the error formatter to standard error and returns \<^verbatim>\<open>None\<close> without
  raising \<^verbatim>\<open>SystemExit\<close>, so the process ends with exit status 0. Every other error ends the
  process with exit status 1: those the handler catches by its \<^verbatim>\<open>SystemExit(1)\<close>, the
  others by reaching the top level (\<^verbatim>\<open>SystemExit\<close> itself is not an error class and keeps
  its own code).
\<close>

theorem check_condition_exit_status:
  assumes "func w = (Inl e, w')"
  shows "(e = AsiCheckConditionError s \<longrightarrow>
            exception_handler E func w =
              (Inr None, print_to (format E ErrorOutputFormatter (PSense s)) Stderr w')
            \<and> stderr (snd (exception_handler E func w)) =
                stderr w' @ format E ErrorOutputFormatter (PSense s) @ [CHR 0x0A]
            \<and> stdout (snd (exception_handler E func w)) = stdout w'
            \<and> exit_status (fst (exception_handler E func w)) = 0)
    \<and> ((\<forall>s'. e \<noteq> AsiCheckConditionError s') \<and> (\<forall>n. e \<noteq> SystemExit n) \<longrightarrow>
            exit_status (fst (exception_handler E func w)) = 1)"
proof (intro conjI impI)
  assume "e = AsiCheckConditionError s"
  then show h: "exception_handler E func w =
              (Inr None, print_to (format E ErrorOutputFormatter (PSense s)) Stderr w')"
    using assms by (simp add: exception_handler_def output_error_def)
  show "stderr (snd (exception_handler E func w)) =
                stderr w' @ format E ErrorOutputFormatter (PSense s) @ [CHR 0x0A]"
    by (simp add: h print_to_def)
  show "stdout (snd (exception_handler E func w)) = stdout w'"
    by (simp add: h print_to_def)
  show "exit_status (fst (exception_handler E func w)) = 0"
    by (simp add: h exit_status_def)
next
  assume "(\<forall>s'. e \<noteq> AsiCheckConditionError s') \<and> (\<forall>n. e \<noteq> SystemExit n)"
  then show "exit_status (fst (exception_handler E func w)) = 1"
    using assms by (cases e) (simp_all add: exception_handler_def exit_status_def)
qed

text \<open>The fields of the concrete environment.\<close>

lemma test_env_fields [simp]:
  "platform (test_env p x) = p"
  "get_sg_from_sd (test_env p x) d = Inr ''/dev/sg0''"
  "open_executer (test_env p x) f d = Inr x"
  "library_execute (test_env p x) c ex = ([SCSIReadCommand [] 0], ex (SCSIReadCommand [] 0))"
  "restore (test_env p x) = restore_hex"
  "format (test_env p x) = tag_format"
  "writable (test_env p x) n = True"
  by (simp_all add: test_env_def)

lemma select_executer_example:
  "select_executer (test_env ''linux'' x) ''/dev/sg0'' = Inr (executers_linux_sg, ''/dev/sg0'')"
  by (simp add: select_executer_def startswith_def)

text \<open>A run in which every sub-operation ends in a check condition.\<close>

lemma main_body_check_condition_example:
  "main_body (test_env ''linux'' failing_executer) (no_arguments\<lparr>arg_turs := True\<rparr>)
     (initial_world [] Map.empty) =
   (Inl (AsiCheckConditionError ''sense''),
    (initial_world [] Map.empty)
      \<lparr>events := [Opened executers_linux_sg ''/dev/sg0'', Called (SCSIReadCommand [] 0),
                  Closed executers_linux_sg ''/dev/sg0'']\<rparr>)"
proof -
  have one: "py_int ''1'' 10 = Inr 1" by code_simp
  show ?thesis
    by (simp add: main_body_def no_arguments_def turs_def asi_context_def
        select_executer_example one
        sync_wait_stmt_def sync_wait_def command_execute_def output_command_def
        set_formatters_def log_event_def initial_world_def OutputContext_init_def
        failing_executer_def Let_def)
qed

theorem check_condition_exit_status_witness:
  "main_body (test_env ''linux'' failing_executer) (no_arguments\<lparr>arg_turs := True\<rparr>)
     (initial_world [] Map.empty) =
   (Inl (AsiCheckConditionError ''sense''),
    (initial_world [] Map.empty)
      \<lparr>events := [Opened executers_linux_sg ''/dev/sg0'', Called (SCSIReadCommand [] 0),
                  Closed executers_linux_sg ''/dev/sg0'']\<rparr>)
   \<and> fst (main (test_env ''linux'' failing_executer) (no_arguments\<lparr>arg_turs := True\<rparr>)
        (initial_world [] Map.empty)) = Inr None
   \<and> stderr (snd (main (test_env ''linux'' failing_executer) (no_arguments\<lparr>arg_turs := True\<rparr>)
        (initial_world [] Map.empty))) = ''Esense'' @ [CHR 0x0A]
   \<and> exit_status (fst (main (test_env ''linux'' failing_executer) (no_arguments\<lparr>arg_turs := True\<rparr>)
        (initial_world [] Map.empty))) = 0
   \<and> (\<forall>s'. ValueError ''bad'' \<noteq> AsiCheckConditionError s') \<and> (\<forall>n. ValueError ''bad'' \<noteq> SystemExit n)
   \<and> exit_status (fst (exception_handler (test_env ''linux'' failing_executer)
        (\<lambda>w. (Inl (ValueError ''bad'') :: error + unit, w)) (initial_world [] Map.empty))) = 1"
proof -
  have fmt: "format (test_env ''linux'' failing_executer) ErrorOutputFormatter (PSense ''sense'') =
             ''Esense''"
    by (simp add: tag_format_def)
  have quiet: "stderr ((initial_world [] Map.empty)
      \<lparr>events := [Opened executers_linux_sg ''/dev/sg0'', Called (SCSIReadCommand [] 0),
                  Closed executers_linux_sg ''/dev/sg0'']\<rparr>) = []"
    by (simp add: initial_world_def)
  have raised: "(\<lambda>w. (Inl (ValueError ''bad'') :: error + unit, w)) (initial_world [] Map.empty) =
                (Inl (ValueError ''bad''), initial_world [] Map.empty)"
    by simp
  have checked:
    "fst (exception_handler (test_env ''linux'' failing_executer)
        (main_body (test_env ''linux'' failing_executer) (no_arguments\<lparr>arg_turs := True\<rparr>))
        (initial_world [] Map.empty)) = Inr None"
    "stderr (snd (exception_handler (test_env ''linux'' failing_executer)
        (main_body (test_env ''linux'' failing_executer) (no_arguments\<lparr>arg_turs := True\<rparr>))
        (initial_world [] Map.empty))) = ''Esense'' @ [CHR 0x0A]"
    "exit_status (fst (exception_handler (test_env ''linux'' failing_executer)
        (main_body (test_env ''linux'' failing_executer) (no_arguments\<lparr>arg_turs := True\<rparr>))
        (initial_world [] Map.empty))) = 0"
    using check_condition_exit_status[where func = "main_body (test_env ''linux'' failing_executer)
        (no_arguments\<lparr>arg_turs := True\<rparr>)" and w = "initial_world [] Map.empty"
      and E = "test_env ''linux'' failing_executer" and s = "''sense''",
      OF main_body_check_condition_example] fmt quiet
    by (simp_all add: exit_status_def print_to_def)
  have other:
    "exit_status (fst (exception_handler (test_env ''linux'' failing_executer)
        (\<lambda>w. (Inl (ValueError ''bad'') :: error + unit, w)) (initial_world [] Map.empty))) = 1"
    using check_condition_exit_status[where func = "\<lambda>w. (Inl (ValueError ''bad'') :: error + unit, w)"
      and w = "initial_world [] Map.empty" and E = "test_env ''linux'' failing_executer",
      OF raised]
    by (simp add: exit_status_def)
  show ?thesis
    unfolding main_def
    using main_body_check_condition_example checked other by simp
qed

subsection \<open>The result of a raw command\<close>


lemma output_command_frame [simp]:
  "stderr (output_command E ctx c Stdout w) = stderr w"
  "files (output_command E ctx c Stdout w) = files w"
  "events (output_command E ctx c Stdout w) = events w"
  by (simp_all add: output_command_def print_to_def)

lemma output_command_stdin [simp]:
  "stdout (output_command E ctx c Stdout (w\<lparr>stdin := i\<rparr>)) = stdout (output_command E ctx c Stdout w)"
  by (simp add: output_command_def print_to_def)

lemma initial_world_fields [simp]:
  "ActiveOutputContext (initial_world i f) = OutputContext_init"
  "stdout (initial_world i f) = []" "stderr (initial_world i f) = []"
  "stdin (initial_world i f) = i" "files (initial_world i f) = f"
  "events (initial_world i f) = []"
  by (simp_all add: initial_world_def)








end
